theory Spec2Isabelle
  imports Complex_Main "HOL-Library.Sublist" "HOL-Library.Log_Nat"
begin

section \<open>JavaScript strings\<close>

text \<open>
  A JavaScript string is modelled as a \<^typ>\<open>string\<close>, each \<^typ>\<open>char\<close> standing for one
  code unit below 256 (ASCII and Latin-1). The operations below are the ones the components
  call: \<open>trim\<close>, \<open>toLowerCase\<close>, \<open>includes\<close>, \<open>split\<close> with a one-character separator,
  and the decimal rendering of a number inside a template literal. White space is what
  \<open>trim\<close> and the pattern \<open>\s\<close> take it to be in that range: tab, line feed, vertical tab,
  form feed, carriage return, space and no-break space.
\<close>

definition isWhiteSpace :: "char \<Rightarrow> bool" where
  "isWhiteSpace c = (c \<in> set [CHR 0x09, CHR 0x0A, CHR 0x0B, CHR 0x0C, CHR 0x0D, CHR 0x20, CHR 0xA0])"

definition trim :: "string \<Rightarrow> string" where
  "trim s = rev (dropWhile isWhiteSpace (rev (dropWhile isWhiteSpace s)))"

definition toLowerChar :: "char \<Rightarrow> char" where
  "toLowerChar c =
     (let n = (of_char c :: nat)
      in if (65 \<le> n \<and> n \<le> 90) \<or> (192 \<le> n \<and> n \<le> 222 \<and> n \<noteq> 215)
         then char_of (n + 32) else c)"

definition toLowerCase :: "string \<Rightarrow> string" where
  "toLowerCase s = map toLowerChar s"

definition toUpperChar :: "char \<Rightarrow> char" where
  "toUpperChar c =
     (let n = (of_char c :: nat)
      in if (97 \<le> n \<and> n \<le> 122) \<or> (224 \<le> n \<and> n \<le> 254 \<and> n \<noteq> 247)
         then char_of (n - 32) else c)"

fun js_includes :: "string \<Rightarrow> string \<Rightarrow> bool" where
  "js_includes [] sub = (sub = [])"
| "js_includes (c # cs) sub = (prefix sub (c # cs) \<or> js_includes cs sub)"

fun js_split :: "char \<Rightarrow> string \<Rightarrow> string list" where
  "js_split sep [] = [[]]"
| "js_split sep (c # cs) =
     (if c = sep then [] # js_split sep cs
      else (case js_split sep cs of
              w # ws \<Rightarrow> (c # w) # ws
            | [] \<Rightarrow> [[c]]))"

definition digitChar :: "nat \<Rightarrow> char" where
  "digitChar d = char_of (48 + d)"

fun showNat :: "nat \<Rightarrow> string" where
  "showNat n = (if n < 10 then [digitChar n] else showNat (n div 10) @ [digitChar (n mod 10)])"

declare showNat.simps [simp del]

datatype error = TypeError

section \<open>Quiz engine (Quiz.jsx)\<close>

subsection \<open>Questions and the question bank\<close>

text \<open>
  A question is the object literal of the bank: \<open>options\<close>, \<open>answer\<close> and \<open>explanation\<close>
  are present on multiple-choice questions only, \<open>sampleAnswer\<close> and \<open>points\<close> on the
  free-response ones; an absent property is \<open>None\<close>. The point values of the bank are
  positive integer literals, so \<open>points\<close> and the score are natural numbers.
\<close>

record question =
  q_id :: nat
  q_text :: string
  q_type :: string
  q_options :: "string list option"
  q_answer :: "string option"
  q_explanation :: "string option"
  q_sampleAnswer :: "string option"
  q_points :: "nat option"

definition easyBank :: "string \<Rightarrow> question list" where
  "easyBank topic =
    [\<lparr>q_id = 1,
      q_text = ''What is the basic definition of '' @ topic @ ''?'',
      q_type = ''multiple-choice'',
      q_options = Some [''Option A - Basic concept'', ''Option B - Advanced concept'',
                        ''Option C - Complex theory'', ''Option D - Abstract idea''],
      q_answer = Some ''Option A - Basic concept'',
      q_explanation = Some (topic @ '' is fundamentally about understanding basic concepts and principles.''),
      q_sampleAnswer = None,
      q_points = None\<rparr>,
     \<lparr>q_id = 2,
      q_text = ''Which of the following is most related to '' @ topic @ ''?'',
      q_type = ''multiple-choice'',
      q_options = Some [''Related concept A'', ''Unrelated concept B'', ''Different field C'', ''Random topic D''],
      q_answer = Some ''Related concept A'',
      q_explanation = Some (''Related concept A is directly connected to '' @ topic @ '' in fundamental ways.''),
      q_sampleAnswer = None,
      q_points = None\<rparr>]"

definition mediumBank :: "string \<Rightarrow> question list" where
  "mediumBank topic =
    [\<lparr>q_id = 1,
      q_text = ''Explain the key principles of '' @ topic @ '' and their applications.'',
      q_type = ''short-answer'',
      q_options = None,
      q_answer = None,
      q_explanation = None,
      q_sampleAnswer = Some ''Key principles include understanding core concepts and applying them effectively.'',
      q_points = Some 10\<rparr>,
     \<lparr>q_id = 2,
      q_text = ''What are the main advantages and disadvantages of '' @ topic @ ''?'',
      q_type = ''multiple-choice'',
      q_options = Some [''Advantages outweigh disadvantages'', ''Disadvantages outweigh advantages'',
                        ''Balanced pros and cons'', ''No clear advantages or disadvantages''],
      q_answer = Some ''Balanced pros and cons'',
      q_explanation = Some ''Most topics have both advantages and disadvantages that need to be carefully considered.'',
      q_sampleAnswer = None,
      q_points = None\<rparr>]"

definition hardBank :: "string \<Rightarrow> question list" where
  "hardBank topic =
    [\<lparr>q_id = 1,
      q_text = ''Analyze the complex relationship between '' @ topic @ '' and its broader implications.'',
      q_type = ''long-answer'',
      q_options = None,
      q_answer = None,
      q_explanation = None,
      q_sampleAnswer = Some ''This requires deep analysis of interconnected concepts and their far-reaching effects.'',
      q_points = Some 20\<rparr>,
     \<lparr>q_id = 2,
      q_text = ''Which advanced concept best describes the theoretical framework of '' @ topic @ ''?'',
      q_type = ''multiple-choice'',
      q_options = Some [''Advanced Framework A'', ''Complex Theory B'', ''Integrated Model C'', ''Holistic Approach D''],
      q_answer = Some ''Integrated Model C'',
      q_explanation = Some ''Integrated models provide the most comprehensive understanding of complex topics.'',
      q_sampleAnswer = None,
      q_points = None\<rparr>]"

subsection \<open>Session state\<close>

record user_answer =
  ua_question :: string
  ua_userAnswer :: string
  ua_correct :: bool

record quiz_state =
  questions :: "question list"
  currentQuestion :: nat
  score :: nat
  selectedAnswer :: string
  showResult :: bool
  isLoading :: bool
  showExplanation :: bool
  userAnswers :: "user_answer list"
  isAnswered :: bool

text \<open>The values the \<open>useState\<close> calls give the component when it mounts.\<close>

definition initialQuiz :: quiz_state where
  "initialQuiz =
     \<lparr>questions = [], currentQuestion = 0, score = 0, selectedAnswer = [],
      showResult = False, isLoading = True, showExplanation = False,
      userAnswers = [], isAnswered = False\<rparr>"

text \<open>The session once \<open>setQuestions qs\<close> and \<open>setIsLoading false\<close> have run.\<close>

definition loadedQuiz :: "question list \<Rightarrow> quiz_state" where
  "loadedQuiz qs = initialQuiz\<lparr>questions := qs, isLoading := False\<rparr>"

subsection \<open>handleAnswer\<close>

text \<open>\<open>currentQ.points || 1\<close>: an absent or zero \<open>points\<close> counts as one.\<close>

definition pointsOr1 :: "question \<Rightarrow> nat" where
  "pointsOr1 q = (case q_points q of None \<Rightarrow> 1 | Some p \<Rightarrow> if p = 0 then 1 else p)"

definition isCorrect :: "question \<Rightarrow> string \<Rightarrow> bool" where
  "isCorrect currentQ answer =
     (if q_type currentQ = ''multiple-choice'' then Some answer = q_answer currentQ
      else length (trim answer) > 0)"

text \<open>
  \<open>questions[currentQuestion]\<close> is \<open>undefined\<close> past the end of the array, and reading
  \<open>.type\<close> of it throws a TypeError.
\<close>

definition handleAnswer :: "string \<Rightarrow> quiz_state \<Rightarrow> error + quiz_state" where
  "handleAnswer answer st =
     (if isAnswered st then Inr st
      else if currentQuestion st < length (questions st) then
        (let currentQ = questions st ! currentQuestion st;
             correct = isCorrect currentQ answer
         in Inr (st\<lparr>selectedAnswer := answer,
                     isAnswered := True,
                     score := (if correct then score st + pointsOr1 currentQ else score st),
                     userAnswers := userAnswers st @
                        [\<lparr>ua_question = q_text currentQ, ua_userAnswer = answer, ua_correct = correct\<rparr>],
                     showExplanation := True\<rparr>))
      else Inl TypeError)"

subsection \<open>nextQuestion and the completion callback\<close>

text \<open>
  \<open>Math.round((score / questions.length) * 100)\<close> is computed in double precision: the
  quotient is rounded to the nearest double, so is its product with 100, and \<open>Math.round\<close>
  then takes the nearest integer, a tie going up. A double is modelled by the rational it
  stands for. \<open>roundToDouble\<close> rounds a rational that is not negative to the nearest
  double, a tie going to the even significand: the significand has 53 bits, the unit in the
  last place is never below \<open>2^-1074\<close>, and a result of \<open>2^1024\<close> or more is
  \<open>Infinity\<close>. \<open>0 / 0\<close> is \<open>NaN\<close>, a positive score over zero is \<open>Infinity\<close>, and
  \<open>Math.round\<close> leaves both as they are. The score and the number of questions are taken to
  be below \<open>2^53\<close>, where every natural number is a double.
\<close>

definition pow2 :: "int \<Rightarrow> rat" where
  "pow2 e = (if 0 \<le> e then 2 ^ nat e else 1 / 2 ^ nat (- e))"

text \<open>The \<open>e\<close> with \<open>2^e \<le> x < 2^(e+1)\<close>, for a positive \<open>x\<close>.\<close>

definition binaryExponent :: "rat \<Rightarrow> int" where
  "binaryExponent x =
     (let d = bitlen (fst (quotient_of x)) - bitlen (snd (quotient_of x))
      in if pow2 d \<le> x then d else d - 1)"

definition roundHalfEven :: "rat \<Rightarrow> int" where
  "roundHalfEven x =
     (let f = \<lfloor>x\<rfloor>; r = x - of_int f
      in if r < 1 / 2 then f else if 1 / 2 < r then f + 1 else if even f then f else f + 1)"

datatype double = DFinite rat | DInfinity

definition roundToDouble :: "rat \<Rightarrow> double" where
  "roundToDouble x =
     (if x = 0 then DFinite 0
      else (let ulp = pow2 (max (binaryExponent x - 52) (- 1074));
                r = of_int (roundHalfEven (x / ulp)) * ulp
            in if pow2 1024 \<le> r then DInfinity else DFinite r))"

datatype jsnumber = Finite int | NaN | Infinity

definition percentageOf :: "nat \<Rightarrow> nat \<Rightarrow> jsnumber" where
  "percentageOf sc n =
     (if n = 0 then (if sc = 0 then NaN else Infinity)
      else (case roundToDouble (of_nat sc / of_nat n) of
              DInfinity \<Rightarrow> Infinity
            | DFinite q \<Rightarrow>
                (case roundToDouble (q * 100) of
                   DInfinity \<Rightarrow> Infinity
                 | DFinite p \<Rightarrow> Finite \<lfloor>p + 1 / 2\<rfloor>)))"

record completion =
  c_score :: nat
  c_total :: nat
  c_userAnswers :: "user_answer list"
  c_percentage :: jsnumber

text \<open>The second component is the argument \<open>onComplete\<close> is called with, if it is called.\<close>

definition nextQuestion :: "quiz_state \<Rightarrow> quiz_state \<times> completion option" where
  "nextQuestion st =
     (if currentQuestion st + 1 < length (questions st) then
        (st\<lparr>currentQuestion := currentQuestion st + 1,
            selectedAnswer := [],
            showExplanation := False,
            isAnswered := False\<rparr>, None)
      else
        (st\<lparr>showResult := True\<rparr>,
         Some \<lparr>c_score = score st,
               c_total = length (questions st),
               c_userAnswers = userAnswers st,
               c_percentage = percentageOf (score st) (length (questions st))\<rparr>))"

subsection \<open>Sequences of calls\<close>

datatype action = SubmitAnswer string | Advance

fun step :: "action \<Rightarrow> quiz_state \<Rightarrow> error + quiz_state \<times> completion option" where
  "step (SubmitAnswer a) st = (case handleAnswer a st of Inl e \<Rightarrow> Inl e | Inr st' \<Rightarrow> Inr (st', None))"
| "step Advance st = Inr (nextQuestion st)"

text \<open>
  A sequence of calls, each on the state the previous one left; the completions are collected
  in the order \<open>onComplete\<close> received them. A thrown error ends the sequence.
\<close>

fun run :: "action list \<Rightarrow> quiz_state \<Rightarrow> error + quiz_state \<times> completion list" where
  "run [] st = Inr (st, [])"
| "run (a # as) st =
     (case step a st of
        Inl e \<Rightarrow> Inl e
      | Inr (st', c) \<Rightarrow>
          (case run as st' of
             Inl e \<Rightarrow> Inl e
           | Inr (st'', cs) \<Rightarrow> Inr (st'', (case c of None \<Rightarrow> cs | Some x \<Rightarrow> x # cs))))"

definition totalPoints :: "question list \<Rightarrow> nat" where
  "totalPoints qs = sum_list (map pointsOr1 qs)"

text \<open>
  The bound the score keeps along a session: the points of the questions before the current
  one, and of the current one once it is answered.
\<close>

definition scoreBound :: "quiz_state \<Rightarrow> nat" where
  "scoreBound st =
     sum_list (map pointsOr1
       (take (currentQuestion st + (if isAnswered st then 1 else 0)) (questions st)))"

subsection \<open>Selecting the bank\<close>

text \<open>
  \<open>questionBank[difficulty]\<close> is a property read on an object literal: the object's own
  properties \<open>easy\<close>, \<open>medium\<close> and \<open>hard\<close> first, then the properties it inherits from
  \<open>Object.prototype\<close>, which are functions, except \<open>__proto__\<close>, which reads as
  \<open>Object.prototype\<close> itself; any other key reads as \<open>undefined\<close>. The result of the read
  is therefore a value of one of four kinds.
\<close>

datatype jsvalue = JArray "question list" | JFunction string | JObjectPrototype | JUndefined

definition objectPrototypeGet :: "string \<Rightarrow> jsvalue" where
  "objectPrototypeGet key =
     (if key \<in> set [''constructor'', ''hasOwnProperty'', ''isPrototypeOf'',
                     ''propertyIsEnumerable'', ''toLocaleString'', ''toString'', ''valueOf'',
                     ''__defineGetter__'', ''__defineSetter__'', ''__lookupGetter__'',
                     ''__lookupSetter__'']
      then JFunction key
      else if key = ''__proto__'' then JObjectPrototype
      else JUndefined)"

definition questionBank :: "string \<Rightarrow> string \<Rightarrow> jsvalue" where
  "questionBank topic key =
     (if key = ''easy'' then JArray (easyBank topic)
      else if key = ''medium'' then JArray (mediumBank topic)
      else if key = ''hard'' then JArray (hardBank topic)
      else objectPrototypeGet key)"

text \<open>Arrays, functions and objects are truthy; \<open>undefined\<close> is not.\<close>

fun truthy :: "jsvalue \<Rightarrow> bool" where
  "truthy JUndefined = False"
| "truthy _ = True"

definition selectedQuestions :: "string \<Rightarrow> string \<Rightarrow> jsvalue" where
  "selectedQuestions topic difficulty =
     (if truthy (questionBank topic difficulty) then questionBank topic difficulty
      else questionBank topic ''medium'')"

text \<open>
  \<open>setQuestions(selectedQuestions); setIsLoading(false)\<close>. A state setter given a function
  calls it on the previous state and stores the result: for \<open>Object.prototype.constructor\<close>,
  which is \<open>Object\<close>, the result is the previous array itself. For the other inherited
  values the state stops being a list of questions, which is \<open>None\<close> here.
\<close>

definition generateQuestions :: "string \<Rightarrow> string \<Rightarrow> quiz_state \<Rightarrow> quiz_state option" where
  "generateQuestions topic difficulty st =
     (case selectedQuestions topic difficulty of
        JArray qs \<Rightarrow> Some (st\<lparr>questions := qs, isLoading := False\<rparr>)
      | JFunction f \<Rightarrow> if f = ''constructor'' then Some (st\<lparr>isLoading := False\<rparr>) else None
      | JObjectPrototype \<Rightarrow> None
      | JUndefined \<Rightarrow> None)"

section \<open>Upload intake (PdfUploader)\<close>

record js_file =
  f_name :: string
  f_type :: string

text \<open>An uploaded file as the pages receive it; \<open>topics\<close> may be absent.\<close>

record uploaded_file =
  uf_name :: string
  uf_type :: string
  uf_url :: string
  uf_topics :: "string list option"

record uploader_state =
  u_selectedFile :: "js_file option"
  u_isLoading :: bool
  u_previewUrl :: "string option"
  u_error :: "string option"

datatype callback = OnFileUpload uploaded_file | OnTopicDetected string

definition validTypes :: "string list" where
  "validTypes =
     [''application/pdf'',
      ''application/vnd.openxmlformats-officedocument.wordprocessingml.document'',
      ''text/plain'']"

text \<open>
  \<open>handleFileChange\<close> up to the \<open>setTimeout\<close> call. The second component is the file the
  scheduled callback has captured, \<open>None\<close> when no callback was scheduled.
\<close>

definition handleFileChange :: "js_file list \<Rightarrow> uploader_state \<Rightarrow> uploader_state \<times> js_file option" where
  "handleFileChange files st =
     (case files of
        [] \<Rightarrow> (st, None)
      | file # _ \<Rightarrow>
          if f_type file \<notin> set validTypes then
            (st\<lparr>u_error := Some ''Please upload a PDF, DOCX, or TXT file.'',
                u_selectedFile := None\<rparr>, None)
          else
            (st\<lparr>u_error := None, u_selectedFile := Some file, u_isLoading := True\<rparr>, Some file))"

text \<open>
  The callback that runs two seconds later, with the calls it makes to \<open>onFileUpload\<close> and
  \<open>onTopicDetected\<close> in order. \<open>URL.createObjectURL\<close> is a parameter.
\<close>

definition uploadTimeout ::
  "(js_file \<Rightarrow> string) \<Rightarrow> js_file \<Rightarrow> uploader_state \<Rightarrow> uploader_state \<times> callback list" where
  "uploadTimeout createObjectURL file st =
     (let topic = js_split (CHR ''.'') (f_name file) ! 0;
          fileData = \<lparr>uf_name = f_name file, uf_type = f_type file,
                      uf_url = createObjectURL file, uf_topics = Some [topic]\<rparr>
      in (st\<lparr>u_isLoading := False, u_selectedFile := None, u_previewUrl := None\<rparr>,
          [OnFileUpload fileData, OnTopicDetected topic]))"

text \<open>
  A concrete stand-in for \<open>URL.createObjectURL\<close>, for the places where the intake is run on
  an explicit file.
\<close>

definition sampleObjectURL :: "js_file \<Rightarrow> string" where
  "sampleObjectURL file = ''blob:'' @ f_name file"

text \<open>One intake from the selection to the end of the simulated upload.\<close>

definition intake ::
  "(js_file \<Rightarrow> string) \<Rightarrow> js_file list \<Rightarrow> uploader_state \<Rightarrow> uploader_state \<times> callback list" where
  "intake createObjectURL files st =
     (case handleFileChange files st of
        (st', None) \<Rightarrow> (st', [])
      | (st', Some file) \<Rightarrow> uploadTimeout createObjectURL file st')"

subsection \<open>What the component renders\<close>

record message =
  m_type :: string
  m_text :: string
  m_timestamp :: nat

text \<open>The rest of the component's state, which the chat uses.\<close>

record chat_state =
  ch_showChat :: bool
  ch_messages :: "message list"
  ch_input :: string
  ch_isTyping :: bool

definition initialUploader :: uploader_state where
  "initialUploader =
     \<lparr>u_selectedFile = None, u_isLoading = False, u_previewUrl = None, u_error = None\<rparr>"

definition initialChat :: chat_state where
  "initialChat = \<lparr>ch_showChat = False, ch_messages = [], ch_input = [], ch_isTyping = False\<rparr>"

definition demoFiles :: "uploaded_file list" where
  "demoFiles =
     [\<lparr>uf_name = ''Machine Learning Basics.pdf'', uf_type = ''application/pdf'',
       uf_url = ''#'', uf_topics = Some [''Machine Learning'']\<rparr>,
      \<lparr>uf_name = ''Data Science Guide.docx'',
       uf_type = ''application/vnd.openxmlformats-officedocument.wordprocessingml.document'',
       uf_url = ''#'', uf_topics = Some [''Data Science'']\<rparr>]"

definition currentFiles :: "uploaded_file list \<Rightarrow> uploaded_file list" where
  "currentFiles uploadedFiles = (if length uploadedFiles > 0 then uploadedFiles else demoFiles)"

definition suggestions :: "string list" where
  "suggestions =
     [''What are the main topics in my documents?'',
      ''Can you summarize the key points?'',
      ''Explain machine learning concepts'',
      ''Compare different algorithms discussed'']"

text \<open>The four emoji of \<open>getFileIcon\<close>, by their names.\<close>

datatype file_icon = PageFacingUp | Memo | Clipboard | FileFolder

definition getFileIcon :: "string \<Rightarrow> file_icon" where
  "getFileIcon fileType =
     (if js_includes fileType ''pdf'' then PageFacingUp
      else if js_includes fileType ''word'' then Memo
      else if js_includes fileType ''text'' then Clipboard
      else FileFolder)"

text \<open>
  The view is what the returned JSX computes from props and state, in document order; the
  markup that is the same in every render is left out. The upload box shows the loader while
  \<open>isLoading\<close> holds and the drop zone otherwise; the files section shows the number of
  current files and one card per file; the chat modal is there while \<open>showChat\<close> holds.
  No expression of the JSX reads \<open>error\<close>, \<open>selectedFile\<close> or \<open>previewUrl\<close>.
\<close>

datatype upload_box = ProcessingDocument | DropFiles

record file_card =
  fc_icon :: file_icon
  fc_name :: string
  fc_kind :: string
  fc_topic :: "string option"

record message_view =
  mv_fromUser :: bool
  mv_text :: string
  mv_timestamp :: nat

datatype chat_body = ChatEmptyState "string list" | ChatMessages "message_view list" bool

record chat_view =
  cv_documentCount :: nat
  cv_plural :: string
  cv_body :: chat_body
  cv_input :: string
  cv_sendDisabled :: bool

record uploader_view =
  v_uploadBox :: upload_box
  v_documentCount :: nat
  v_files :: "file_card list"
  v_chat :: "chat_view option"

text \<open>
  One file card. \<open>file.topics[0]\<close> throws when the file has no \<open>topics\<close> and is
  \<open>undefined\<close>, which renders as nothing, when the array is empty.
\<close>

definition fileCard :: "uploaded_file \<Rightarrow> error + file_card" where
  "fileCard file =
     (case uf_topics file of
        None \<Rightarrow> Inl TypeError
      | Some ts \<Rightarrow>
          Inr \<lparr>fc_icon = getFileIcon (uf_type file),
               fc_name = uf_name file,
               fc_kind = (if js_includes (uf_type file) ''pdf'' then ''PDF''
                          else if js_includes (uf_type file) ''word'' then ''DOCX''
                          else ''TXT''),
               fc_topic = (case ts of [] \<Rightarrow> None | t # _ \<Rightarrow> Some t)\<rparr>)"

fun mapE :: "('a \<Rightarrow> error + 'b) \<Rightarrow> 'a list \<Rightarrow> error + 'b list" where
  "mapE f [] = Inr []"
| "mapE f (x # xs) =
     (case f x of
        Inl e \<Rightarrow> Inl e
      | Inr y \<Rightarrow> (case mapE f xs of Inl e \<Rightarrow> Inl e | Inr ys \<Rightarrow> Inr (y # ys)))"

definition messageView :: "message \<Rightarrow> message_view" where
  "messageView msg =
     \<lparr>mv_fromUser = (m_type msg = ''user''), mv_text = m_text msg,
      mv_timestamp = m_timestamp msg\<rparr>"

definition chatView :: "uploaded_file list \<Rightarrow> chat_state \<Rightarrow> chat_view" where
  "chatView files chat =
     \<lparr>cv_documentCount = length files,
      cv_plural = (if length files \<noteq> 1 then ''s'' else []),
      cv_body = (if length (ch_messages chat) = 0 then ChatEmptyState suggestions
                 else ChatMessages (map messageView (ch_messages chat)) (ch_isTyping chat)),
      cv_input = ch_input chat,
      cv_sendDisabled = (trim (ch_input chat) = [])\<rparr>"

definition render :: "uploaded_file list \<Rightarrow> chat_state \<Rightarrow> uploader_state \<Rightarrow> error + uploader_view" where
  "render uploadedFiles chat st =
     (case mapE fileCard (currentFiles uploadedFiles) of
        Inl e \<Rightarrow> Inl e
      | Inr cards \<Rightarrow>
          Inr \<lparr>v_uploadBox = (if u_isLoading st then ProcessingDocument else DropFiles),
               v_documentCount = length (currentFiles uploadedFiles),
               v_files = cards,
               v_chat = (if ch_showChat chat
                         then Some (chatView (currentFiles uploadedFiles) chat)
                         else None)\<rparr>)"

subsection \<open>The filename without its extension\<close>

text \<open>
  The specification's wording, a filename with its extension stripped: the name without its
  last dot and what follows it, and the name itself when it has no dot.
\<close>

definition stripExtension :: "string \<Rightarrow> string" where
  "stripExtension name =
     (if CHR ''.'' \<in> set name
      then rev (tl (dropWhile (\<lambda>c. c \<noteq> CHR ''.'') (rev name)))
      else name)"

section \<open>Question-paper generator (QuestionPaper)\<close>

record paper_question =
  pq_id :: nat
  pq_question :: string
  pq_options :: "string list option"
  pq_marks :: int
  pq_difficulty :: string

record paper_section =
  s_part :: string
  s_title :: string
  s_instructions :: string
  s_questions :: "paper_question list"
  s_totalMarks :: int

record paper =
  p_title :: string
  p_subject :: string
  p_timeLimit :: int
  p_totalMarks :: int
  p_generatedAt :: string
  p_sections :: "paper_section list"

text \<open>
  The counts are what the number inputs store, \<open>parseInt(e.target.value) || 0\<close>: any
  integer, a negative one included, since the \<open>min\<close> attribute of an input does not stop a
  typed value.
\<close>

record question_count =
  qc_mcq :: int
  qc_short :: int
  qc_long :: int

text \<open>
  \<open>Array.from({ length: n }, (_, i) => f i)\<close>: a negative length counts as zero. The model
  covers lengths below \<open>2^32\<close>; from there on \<open>Array.from\<close> throws a RangeError. The marks
  are integers, as the sums of the code are for counts of that size.
\<close>

definition arrayFrom :: "int \<Rightarrow> (nat \<Rightarrow> 'a) \<Rightarrow> 'a list" where
  "arrayFrom n f = map f [0 ..< nat n]"

text \<open>\<open>selectedTopics[0] || fallback\<close>: an empty array and an empty first topic both fall back.\<close>

definition firstTopicOr :: "string list \<Rightarrow> string \<Rightarrow> string" where
  "firstTopicOr selectedTopics fallback =
     (case selectedTopics of [] \<Rightarrow> fallback | t # _ \<Rightarrow> if t = [] then fallback else t)"

fun joinWith :: "string \<Rightarrow> string list \<Rightarrow> string" where
  "joinWith sep [] = []"
| "joinWith sep [x] = x"
| "joinWith sep (x # y # ys) = x @ sep @ joinWith sep (y # ys)"

text \<open>
  \<open>difficulty.charAt(0).toUpperCase() + difficulty.slice(1)\<close>. The upper case of a letter
  is modelled where it is again one code unit below 256, which leaves out the sharp s, the
  micro sign and the y with diaeresis; the title plays no part in the marks.
\<close>

definition capitalize :: "string \<Rightarrow> string" where
  "capitalize d = (case d of [] \<Rightarrow> [] | c # cs \<Rightarrow> toUpperChar c # cs)"

definition calculateTotalMarks :: "question_count \<Rightarrow> int" where
  "calculateTotalMarks questionCount =
     (qc_mcq questionCount * 1) + (qc_short questionCount * 3) + (qc_long questionCount * 10)"

text \<open>
  The paper the timer callback of \<open>generatePaper\<close> builds, from the component's props and
  state; the date string of \<open>new Date().toLocaleDateString()\<close> is a parameter.
\<close>

definition generatePaper ::
  "string \<Rightarrow> string list \<Rightarrow> question_count \<Rightarrow> int \<Rightarrow> string \<Rightarrow> paper" where
  "generatePaper difficulty selectedTopics questionCount timeLimit today =
     \<lparr>p_title = capitalize difficulty @ '' Level Question Paper'',
      p_subject = (if length selectedTopics > 0 then joinWith '', '' selectedTopics
                   else ''General Studies''),
      p_timeLimit = timeLimit,
      p_totalMarks = calculateTotalMarks questionCount,
      p_generatedAt = today,
      p_sections =
        [\<lparr>s_part = ''A'',
          s_title = ''Multiple Choice Questions'',
          s_instructions = ''Choose the correct answer from the given options.'',
          s_questions = arrayFrom (qc_mcq questionCount) (\<lambda>i.
             \<lparr>pq_id = i + 1,
              pq_question = ''Sample MCQ '' @ showNat (i + 1) @ '' based on ''
                            @ firstTopicOr selectedTopics ''uploaded content'' @ ''?'',
              pq_options = Some [''Option A'', ''Option B'', ''Option C'', ''Option D''],
              pq_marks = 1,
              pq_difficulty = difficulty\<rparr>),
          s_totalMarks = qc_mcq questionCount\<rparr>,
         \<lparr>s_part = ''B'',
          s_title = ''Short Answer Questions'',
          s_instructions = ''Answer in 2-3 sentences.'',
          s_questions = arrayFrom (qc_short questionCount) (\<lambda>i.
             \<lparr>pq_id = i + 1,
              pq_question = ''Short answer question '' @ showNat (i + 1) @ '' about ''
                            @ firstTopicOr selectedTopics ''document content'' @ ''.'',
              pq_options = None,
              pq_marks = 3,
              pq_difficulty = difficulty\<rparr>),
          s_totalMarks = qc_short questionCount * 3\<rparr>,
         \<lparr>s_part = ''C'',
          s_title = ''Long Answer Questions'',
          s_instructions = ''Answer in detail with examples.'',
          s_questions = arrayFrom (qc_long questionCount) (\<lambda>i.
             \<lparr>pq_id = i + 1,
              pq_question = ''Detailed question '' @ showNat (i + 1)
                            @ '' requiring comprehensive analysis of ''
                            @ firstTopicOr selectedTopics ''uploaded material'' @ ''.'',
              pq_options = None,
              pq_marks = 10,
              pq_difficulty = difficulty\<rparr>),
          s_totalMarks = qc_long questionCount * 10\<rparr>]\<rparr>"

definition sectionMarks :: "paper_section \<Rightarrow> int" where
  "sectionMarks sec = sum_list (map pq_marks (s_questions sec))"

section \<open>Resources browser (Resources.jsx)\<close>

record resource =
  r_id :: string
  r_type :: string
  r_category :: string
  r_title :: string
  r_description :: string
  r_url :: string
  r_thumbnail :: string
  r_difficulty :: string
  r_rating :: rat
  r_topic :: string
  r_author :: string
  r_tags :: "string list option"
  r_duration :: "string option"
  r_views :: "string option"
  r_readTime :: "string option"
  r_publishDate :: "string option"
  r_features :: "string list option"
  r_pages :: "nat option"
  r_isbn :: "string option"

text \<open>\<open>s.replace(/\s+/g, '-')\<close>: every maximal run of white space becomes one hyphen.\<close>

function replaceSpaces :: "string \<Rightarrow> string" where
  "replaceSpaces [] = []"
| "replaceSpaces (c # cs) =
     (if isWhiteSpace c then CHR ''-'' # replaceSpaces (dropWhile isWhiteSpace cs)
      else c # replaceSpaces cs)"
  by pat_completeness auto
termination
  by (relation "measure length") (auto simp: length_dropWhile_le less_Suc_eq_le)

definition videoResources :: "string \<Rightarrow> nat \<Rightarrow> resource list" where
  "videoResources topic topicIndex =
    [\<lparr>r_id = ''video-'' @ showNat topicIndex @ ''-1'',
      r_type = ''video'',
      r_category = ''video'',
      r_title = topic @ '' - Complete Tutorial'',
      r_description = ''Comprehensive video tutorial covering all aspects of '' @ topic,
      r_url = ''https://www.youtube.com/embed/dQw4w9WgXcQ'',
      r_thumbnail = ''https://img.youtube.com/vi/dQw4w9WgXcQ/maxresdefault.jpg'',
      r_difficulty = ''Beginner'',
      r_rating = 48 / 10,
      r_topic = topic,
      r_author = ''EduTech Academy'',
      r_tags = Some [''tutorial'', ''basics'', toLowerCase topic],
      r_duration = Some ''45:30'',
      r_views = Some ''2.1M'',
      r_readTime = None, r_publishDate = None, r_features = None, r_pages = None, r_isbn = None\<rparr>,
     \<lparr>r_id = ''video-'' @ showNat topicIndex @ ''-2'',
      r_type = ''video'',
      r_category = ''video'',
      r_title = ''Advanced '' @ topic @ '' Concepts'',
      r_description = ''Deep dive into advanced concepts and real-world applications of '' @ topic,
      r_url = ''https://www.youtube.com/embed/dQw4w9WgXcQ'',
      r_thumbnail = ''https://img.youtube.com/vi/dQw4w9WgXcQ/maxresdefault.jpg'',
      r_difficulty = ''Advanced'',
      r_rating = 49 / 10,
      r_topic = topic,
      r_author = ''Tech Masters'',
      r_tags = Some [''advanced'', ''concepts'', toLowerCase topic],
      r_duration = Some ''1:12:45'',
      r_views = Some ''856K'',
      r_readTime = None, r_publishDate = None, r_features = None, r_pages = None, r_isbn = None\<rparr>]"

definition articleResources :: "string \<Rightarrow> nat \<Rightarrow> resource list" where
  "articleResources topic topicIndex =
    [\<lparr>r_id = ''article-'' @ showNat topicIndex @ ''-1'',
      r_type = ''article'',
      r_category = ''article'',
      r_title = ''Understanding '' @ topic @ '': A Comprehensive Guide'',
      r_description = ''In-depth article explaining the fundamentals and applications of '' @ topic,
      r_url = ''https://example.com/'' @ replaceSpaces (toLowerCase topic) @ ''-guide'',
      r_thumbnail = ''https://via.placeholder.com/300x200?text=Article'',
      r_difficulty = ''Intermediate'',
      r_rating = 46 / 10,
      r_topic = topic,
      r_author = ''Knowledge Hub'',
      r_tags = Some [''guide'', ''fundamentals'', toLowerCase topic],
      r_duration = None, r_views = None,
      r_readTime = Some ''12 min read'',
      r_publishDate = Some ''2024-01-15'',
      r_features = None, r_pages = None, r_isbn = None\<rparr>,
     \<lparr>r_id = ''article-'' @ showNat topicIndex @ ''-2'',
      r_type = ''article'',
      r_category = ''article'',
      r_title = topic @ '' Best Practices and Tips'',
      r_description = ''Expert tips and best practices for mastering '' @ topic,
      r_url = ''https://example.com/'' @ replaceSpaces (toLowerCase topic) @ ''-tips'',
      r_thumbnail = ''https://via.placeholder.com/300x200?text=Tips'',
      r_difficulty = ''Intermediate'',
      r_rating = 47 / 10,
      r_topic = topic,
      r_author = ''Expert Insights'',
      r_tags = Some [''tips'', ''best-practices'', toLowerCase topic],
      r_duration = None, r_views = None,
      r_readTime = Some ''8 min read'',
      r_publishDate = Some ''2024-02-20'',
      r_features = None, r_pages = None, r_isbn = None\<rparr>]"

definition interactiveResources :: "string \<Rightarrow> nat \<Rightarrow> resource list" where
  "interactiveResources topic topicIndex =
    [\<lparr>r_id = ''interactive-'' @ showNat topicIndex @ ''-1'',
      r_type = ''interactive'',
      r_category = ''interactive'',
      r_title = topic @ '' Interactive Simulator'',
      r_description = ''Hands-on interactive tool to practice and experiment with '' @ topic @ '' concepts'',
      r_url = ''https://simulator.example.com/'' @ toLowerCase topic,
      r_thumbnail = ''https://via.placeholder.com/300x200?text=Interactive'',
      r_difficulty = ''All Levels'',
      r_rating = 45 / 10,
      r_topic = topic,
      r_author = ''Interactive Learning'',
      r_tags = Some [''interactive'', ''practice'', toLowerCase topic],
      r_duration = None, r_views = None, r_readTime = None, r_publishDate = None,
      r_features = Some [''Real-time feedback'', ''Multiple scenarios'', ''Progress tracking''],
      r_pages = None, r_isbn = None\<rparr>]"

definition bookResources :: "string \<Rightarrow> nat \<Rightarrow> resource list" where
  "bookResources topic topicIndex =
    [\<lparr>r_id = ''book-'' @ showNat topicIndex @ ''-1'',
      r_type = ''book'',
      r_category = ''book'',
      r_title = ''The Complete '' @ topic @ '' Handbook'',
      r_description = ''Comprehensive reference book covering everything about '' @ topic,
      r_url = ''https://books.example.com/'' @ toLowerCase topic @ ''-handbook.pdf'',
      r_thumbnail = ''https://via.placeholder.com/300x400?text=Book'',
      r_difficulty = ''All Levels'',
      r_rating = 48 / 10,
      r_topic = topic,
      r_author = ''Dr. Academic Expert'',
      r_tags = Some [''reference'', ''comprehensive'', toLowerCase topic],
      r_duration = None, r_views = None, r_readTime = None, r_publishDate = None,
      r_features = None,
      r_pages = Some 324,
      r_isbn = Some ''978-0123456789''\<rparr>]"

definition defaultResources :: "resource list" where
  "defaultResources =
    [\<lparr>r_id = ''default-1'',
      r_type = ''video'',
      r_category = ''video'',
      r_title = ''Getting Started with Learning'',
      r_description = ''Learn how to make the most of your study sessions'',
      r_url = ''https://www.youtube.com/embed/dQw4w9WgXcQ'',
      r_thumbnail = ''https://img.youtube.com/vi/dQw4w9WgXcQ/maxresdefault.jpg'',
      r_difficulty = ''Beginner'',
      r_rating = 47 / 10,
      r_topic = ''Study Skills'',
      r_author = ''Learning Academy'',
      r_tags = None,
      r_duration = Some ''25:15'',
      r_views = Some ''1.2M'',
      r_readTime = None, r_publishDate = None, r_features = None, r_pages = None, r_isbn = None\<rparr>]"

subsection \<open>generateResources\<close>

text \<open>
  \<open>[...new Set(allTopics)]\<close>: a set keeps its elements in insertion order, and adding an
  element it already has changes nothing.
\<close>

definition setAdd :: "string list \<Rightarrow> string \<Rightarrow> string list" where
  "setAdd acc x = (if x \<in> set acc then acc else acc @ [x])"

definition newSet :: "string list \<Rightarrow> string list" where
  "newSet xs = foldl setAdd [] xs"

text \<open>\<open>uploadedFiles.flatMap(file => file.topics || [])\<close>.\<close>

definition allTopics :: "uploaded_file list \<Rightarrow> string list" where
  "allTopics uploadedFiles =
     concat (map (\<lambda>file. case uf_topics file of None \<Rightarrow> [] | Some ts \<Rightarrow> ts) uploadedFiles)"

text \<open>
  The \<open>forEach\<close> over the unique topics: each round pushes the videos, the articles, the
  interactive item and the book of the topic onto \<open>generatedResources\<close>.
\<close>

fun forEachTopic :: "string list \<Rightarrow> nat \<Rightarrow> resource list \<Rightarrow> resource list" where
  "forEachTopic [] topicIndex generatedResources = generatedResources"
| "forEachTopic (topic # rest) topicIndex generatedResources =
     forEachTopic rest (topicIndex + 1)
       ((((generatedResources @ videoResources topic topicIndex)
            @ articleResources topic topicIndex)
           @ interactiveResources topic topicIndex)
          @ bookResources topic topicIndex)"

definition generateResources :: "uploaded_file list \<Rightarrow> resource list" where
  "generateResources uploadedFiles =
     (if length uploadedFiles > 0
      then forEachTopic (newSet (allTopics uploadedFiles)) 0 []
      else defaultResources)"

text \<open>The six resources of one topic, in the order the loop body pushes them.\<close>

definition topicCluster :: "nat \<times> string \<Rightarrow> resource list" where
  "topicCluster p =
     videoResources (snd p) (fst p) @ articleResources (snd p) (fst p)
       @ interactiveResources (snd p) (fst p) @ bookResources (snd p) (fst p)"

definition ofTopicAndType :: "string \<Rightarrow> string \<Rightarrow> resource \<Rightarrow> bool" where
  "ofTopicAndType topic ty r = (r_topic r = topic \<and> r_type r = ty)"

subsection \<open>Filtering\<close>

text \<open>
  The callback of the search filter. \<open>||\<close> stops at the first operand that holds, so
  \<open>resource.tags.some\<close> is reached only when title, description and topic all fail to match;
  there, a resource without \<open>tags\<close> throws a TypeError.
\<close>

definition matchesQuery :: "string \<Rightarrow> resource \<Rightarrow> error + bool" where
  "matchesQuery searchQuery r =
     (if js_includes (toLowerCase (r_title r)) (toLowerCase searchQuery) then Inr True
      else if js_includes (toLowerCase (r_description r)) (toLowerCase searchQuery) then Inr True
      else if js_includes (toLowerCase (r_topic r)) (toLowerCase searchQuery) then Inr True
      else (case r_tags r of
              None \<Rightarrow> Inl TypeError
            | Some tags \<Rightarrow>
                Inr (list_ex (\<lambda>tag. js_includes (toLowerCase tag) (toLowerCase searchQuery)) tags)))"

text \<open>\<open>Array.prototype.filter\<close> with a callback that may throw: the first throw ends it.\<close>

fun filterE :: "('a \<Rightarrow> error + bool) \<Rightarrow> 'a list \<Rightarrow> error + 'a list" where
  "filterE p [] = Inr []"
| "filterE p (x # xs) =
     (case p x of
        Inl e \<Rightarrow> Inl e
      | Inr b \<Rightarrow> (case filterE p xs of
                    Inl e \<Rightarrow> Inl e
                  | Inr ys \<Rightarrow> Inr (if b then x # ys else ys)))"

definition filterResources :: "resource list \<Rightarrow> string \<Rightarrow> string \<Rightarrow> error + resource list" where
  "filterResources resources selectedCategory searchQuery =
     (let filtered = (if selectedCategory \<noteq> ''all''
                      then filter (\<lambda>resource. r_category resource = selectedCategory) resources
                      else resources)
      in if trim searchQuery \<noteq> []
         then filterE (matchesQuery searchQuery) filtered
         else Inr filtered)"

record resources_state =
  rs_resources :: "resource list"
  rs_filteredResources :: "resource list"
  rs_selectedCategory :: string
  rs_favorites :: "string list"

text \<open>The filtering effect, run with the \<open>searchQuery\<close> prop on the component's state.\<close>

definition filterEffect :: "string \<Rightarrow> resources_state \<Rightarrow> error + resources_state" where
  "filterEffect searchQuery st =
     (case filterResources (rs_resources st) (rs_selectedCategory st) searchQuery of
        Inl e \<Rightarrow> Inl e
      | Inr filtered \<Rightarrow> Inr (st\<lparr>rs_filteredResources := filtered\<rparr>))"

text \<open>
  The specification's wording of the two filters: the category filter is an exact match that
  \<open>all\<close> bypasses; the text filter is a case-insensitive substring match of the query against
  title, description, topic or any tag.
\<close>

definition passesCategory :: "string \<Rightarrow> resource \<Rightarrow> bool" where
  "passesCategory category r = (category = ''all'' \<or> r_category r = category)"

definition textMatch :: "string \<Rightarrow> resource \<Rightarrow> bool" where
  "textMatch query r =
     (sublist (toLowerCase query) (toLowerCase (r_title r)) \<or>
      sublist (toLowerCase query) (toLowerCase (r_description r)) \<or>
      sublist (toLowerCase query) (toLowerCase (r_topic r)) \<or>
      (case r_tags r of
         None \<Rightarrow> False
       | Some tags \<Rightarrow> list_ex (\<lambda>tag. sublist (toLowerCase query) (toLowerCase tag)) tags))"

definition conjunctiveMatch :: "string \<Rightarrow> string \<Rightarrow> resource \<Rightarrow> bool" where
  "conjunctiveMatch category query r = (passesCategory category r \<and> textMatch query r)"

definition categoryOrBlankMatch :: "string \<Rightarrow> string \<Rightarrow> resource \<Rightarrow> bool" where
  "categoryOrBlankMatch category query r =
     (passesCategory category r \<and> (trim query = [] \<or> textMatch query r))"

definition hasTags :: "resource \<Rightarrow> bool" where
  "hasTags r = (r_tags r \<noteq> None)"

subsection \<open>Favorites\<close>

definition toggleFavorite :: "string \<Rightarrow> string list \<Rightarrow> string list" where
  "toggleFavorite resourceId prev =
     (if resourceId \<in> set prev
      then filter (\<lambda>id. id \<noteq> resourceId) prev
      else prev @ [resourceId])"

section \<open>Properties of the quiz engine\<close>

text \<open>
  C5. In a state whose current question is already answered, \<open>handleAnswer\<close> with any value
  returns the state as it was: score, transcript and every flag are unchanged. In particular a
  call that follows a successful call, without advancing, changes nothing.
\<close>

theorem handleAnswer_idempotent:
  "(isAnswered st \<longrightarrow> handleAnswer v st = Inr st) \<and>
   (handleAnswer a st = Inr st' \<longrightarrow> handleAnswer v st' = Inr st')"
  by (auto simp: handleAnswer_def Let_def split: if_splits)

theorem handleAnswer_idempotent_witness:
  "isAnswered (loadedQuiz (easyBank ''x'')\<lparr>isAnswered := True\<rparr>) \<and>
   handleAnswer ''Option B - Advanced concept'' (loadedQuiz (easyBank ''x'')\<lparr>isAnswered := True\<rparr>)
     = Inr (loadedQuiz (easyBank ''x'')\<lparr>isAnswered := True\<rparr>)"
  using handleAnswer_idempotent [of "loadedQuiz (easyBank ''x'')\<lparr>isAnswered := True\<rparr>"
      "''Option B - Advanced concept''" "''Option A - Basic concept''"]
  by simp

lemmas quiz_eval =
  run.simps step.simps handleAnswer_def nextQuestion_def loadedQuiz_def initialQuiz_def
  isCorrect_def trim_def isWhiteSpace_def pointsOr1_def Let_def

lemma percentageOf_two_of_two: "percentageOf (Suc (Suc 0)) (Suc (Suc 0)) = Finite 100"
proof -
  have "percentageOf 2 2 = Finite 100" by code_simp
  then show ?thesis by (simp only: numeral_2_eq_2)
qed

lemma percentageOf_eleven_of_two: "percentageOf 11 (Suc (Suc 0)) = Finite 550"
proof -
  have "percentageOf 11 2 = Finite 550" by code_simp
  then show ?thesis by (simp only: numeral_2_eq_2)
qed

text \<open>
  The rounding is that of the doubles: the exact quotient 23 / 40 gives 57.5 and would round
  to 58, while the double product lies just below 57.5.
\<close>

lemma percentageOf_double_rounding: "percentageOf 23 40 = Finite 57"
  by code_simp

text \<open>
  On a quiz of two questions that are worth one point each, as the choice questions are, two
  correct answers complete the quiz with score 2, total 2 and percentage 100. The easy bank is
  such a quiz.
\<close>

lemma completion_one_point_questions:
  assumes "pointsOr1 q1 = 1" and "pointsOr1 q2 = 1" and "isCorrect q1 a1" and "isCorrect q2 a2"
  shows "map_sum id snd
           (run [SubmitAnswer a1, Advance, SubmitAnswer a2, Advance] (loadedQuiz [q1, q2])) =
         Inr [\<lparr>c_score = 2, c_total = 2,
               c_userAnswers =
                 [\<lparr>ua_question = q_text q1, ua_userAnswer = a1, ua_correct = True\<rparr>,
                  \<lparr>ua_question = q_text q2, ua_userAnswer = a2, ua_correct = True\<rparr>],
               c_percentage = Finite 100\<rparr>]"
  using assms
  by (simp add: handleAnswer_def nextQuestion_def loadedQuiz_def initialQuiz_def Let_def
      percentageOf_two_of_two)

text \<open>
  C1 fails on the medium bank, the bank of the default difficulty. Its first question carries
  ten points and the percentage divides the score by the number of questions, so completing
  this quiz of two questions with both answers correct calls \<open>onComplete\<close> with score 11,
  total 2 and percentage 550, where the claim has score equal to total and percentage 100.
\<close>

theorem completion_medium_bank_percentage:
  "map_sum id (map c_score \<circ> snd)
     (run [SubmitAnswer ''hello'', Advance, SubmitAnswer ''Balanced pros and cons'', Advance]
        (loadedQuiz (mediumBank ''x''))) = Inr [11]
   \<and> map_sum id (map c_total \<circ> snd)
     (run [SubmitAnswer ''hello'', Advance, SubmitAnswer ''Balanced pros and cons'', Advance]
        (loadedQuiz (mediumBank ''x''))) = Inr [2]
   \<and> map_sum id (map c_percentage \<circ> snd)
     (run [SubmitAnswer ''hello'', Advance, SubmitAnswer ''Balanced pros and cons'', Advance]
        (loadedQuiz (mediumBank ''x''))) = Inr [Finite 550]
   \<and> map_sum id (map (map ua_correct \<circ> c_userAnswers) \<circ> snd)
     (run [SubmitAnswer ''hello'', Advance, SubmitAnswer ''Balanced pros and cons'', Advance]
        (loadedQuiz (mediumBank ''x''))) = Inr [[True, True]]"
  by (simp add: quiz_eval mediumBank_def percentageOf_eleven_of_two)

lemma sum_take_le: "sum_list (map pointsOr1 (take n qs)) \<le> totalPoints qs"
proof -
  have "sum_list (map pointsOr1 qs)
        = sum_list (map pointsOr1 (take n qs)) + sum_list (map pointsOr1 (drop n qs))"
    by (metis append_take_drop_id map_append sum_list.append)
  then show ?thesis by (simp add: totalPoints_def)
qed

lemma sum_take_mono:
  "m \<le> n \<Longrightarrow> sum_list (map pointsOr1 (take m qs)) \<le> sum_list (map pointsOr1 (take n qs))"
proof -
  assume "m \<le> n"
  then have "take m qs = take m (take n qs)" by (simp add: min_def)
  then have "sum_list (map pointsOr1 (take n qs))
        = sum_list (map pointsOr1 (take m qs)) + sum_list (map pointsOr1 (drop m (take n qs)))"
    by (metis append_take_drop_id map_append sum_list.append)
  then show ?thesis by simp
qed

lemma handleAnswer_bound:
  assumes "handleAnswer a st = Inr st'" and "score st \<le> scoreBound st"
  shows "score st' \<le> scoreBound st' \<and> questions st' = questions st \<and> score st \<le> score st'"
proof (cases "isAnswered st")
  case True
  with assms show ?thesis by (simp add: handleAnswer_def)
next
  case False
  with assms(1) have lt: "currentQuestion st < length (questions st)"
    by (auto simp: handleAnswer_def split: if_splits)
  have tk: "sum_list (map pointsOr1 (take (Suc (currentQuestion st)) (questions st)))
        = sum_list (map pointsOr1 (take (currentQuestion st) (questions st)))
          + pointsOr1 (questions st ! currentQuestion st)"
    using lt by (simp add: take_Suc_conv_app_nth)
  from False lt assms show ?thesis
    by (auto simp: handleAnswer_def Let_def scoreBound_def tk)
qed

lemma nextQuestion_bound:
  assumes "score st \<le> scoreBound st"
  shows "score (fst (nextQuestion st)) \<le> scoreBound (fst (nextQuestion st))
       \<and> questions (fst (nextQuestion st)) = questions st
       \<and> score (fst (nextQuestion st)) = score st"
proof (cases "currentQuestion st + 1 < length (questions st)")
  case True
  have "scoreBound st \<le> sum_list (map pointsOr1 (take (currentQuestion st + 1) (questions st)))"
    unfolding scoreBound_def by (rule sum_take_mono) simp
  with True assms show ?thesis
    by (simp add: nextQuestion_def scoreBound_def)
next
  case False
  with assms show ?thesis by (simp add: nextQuestion_def scoreBound_def)
qed

lemma run_bound:
  "run acts st = Inr (st', cs) \<Longrightarrow> score st \<le> scoreBound st \<Longrightarrow>
     score st' \<le> scoreBound st' \<and> questions st' = questions st \<and> score st \<le> score st'"
proof (induction acts arbitrary: st st' cs)
  case Nil
  then show ?case by simp
next
  case (Cons a acts)
  from Cons.prems(1) obtain s1 c1 cs1 where
    s1: "step a st = Inr (s1, c1)" and r: "run acts s1 = Inr (st', cs1)"
    by (auto split: sum.splits prod.splits)
  have b1: "score s1 \<le> scoreBound s1 \<and> questions s1 = questions st \<and> score st \<le> score s1"
  proof (cases a)
    case (SubmitAnswer v)
    with s1 have "handleAnswer v st = Inr s1" by (auto split: sum.splits)
    then show ?thesis using handleAnswer_bound Cons.prems(2) by blast
  next
    case Advance
    with s1 have "s1 = fst (nextQuestion st)" by auto
    then show ?thesis using nextQuestion_bound [OF Cons.prems(2)] by simp
  qed
  from Cons.IH [OF r] b1 show ?case by auto
qed

lemma loaded_bound: "score (loadedQuiz qs) \<le> scoreBound (loadedQuiz qs)"
  by (simp add: loadedQuiz_def initialQuiz_def)

text \<open>
  C4. In every state a session reaches by any sequence of \<open>handleAnswer\<close> and
  \<open>nextQuestion\<close> calls, the score is at most the sum of the questions' point values (one for
  a question without \<open>points\<close>); a further \<open>handleAnswer\<close> never lowers it and keeps it within
  that sum, and \<open>nextQuestion\<close> leaves it as it is.
\<close>

theorem score_monotone_bounded:
  assumes "run acts (loadedQuiz qs) = Inr (st, cs)"
  shows "score st \<le> totalPoints qs \<and>
         (\<forall>v st'. handleAnswer v st = Inr st' \<longrightarrow>
                    score st \<le> score st' \<and> score st' \<le> totalPoints qs) \<and>
         score (fst (nextQuestion st)) = score st"
proof -
  from run_bound [OF assms loaded_bound]
  have inv: "score st \<le> scoreBound st" and qs: "questions st = qs"
    by (simp_all add: loadedQuiz_def initialQuiz_def)
  have le: "\<And>s. questions s = qs \<Longrightarrow> scoreBound s \<le> totalPoints qs"
    unfolding scoreBound_def using sum_take_le by metis
  have "score st \<le> totalPoints qs" using inv le [OF qs] by simp
  moreover have "\<forall>v st'. handleAnswer v st = Inr st' \<longrightarrow>
                    score st \<le> score st' \<and> score st' \<le> totalPoints qs"
  proof (intro allI impI)
    fix v st' assume h: "handleAnswer v st = Inr st'"
    from handleAnswer_bound [OF h inv] qs le [of st']
    show "score st \<le> score st' \<and> score st' \<le> totalPoints qs" by auto
  qed
  moreover have "score (fst (nextQuestion st)) = score st"
    using nextQuestion_bound [OF inv] by simp
  ultimately show ?thesis by blast
qed

theorem score_monotone_bounded_witness:
  "run [SubmitAnswer ''hello'', Advance] (loadedQuiz (mediumBank ''x''))
     = Inr (projr (run [SubmitAnswer ''hello'', Advance] (loadedQuiz (mediumBank ''x''))))
   \<and> score (fst (projr (run [SubmitAnswer ''hello'', Advance] (loadedQuiz (mediumBank ''x''))))) = 10
   \<and> totalPoints (mediumBank ''x'') = 11
   \<and> map_sum id score
       (handleAnswer ''Balanced pros and cons''
         (fst (projr (run [SubmitAnswer ''hello'', Advance] (loadedQuiz (mediumBank ''x'')))))) = Inr 11
   \<and> score (fst (projr (run [SubmitAnswer ''hello'', Advance] (loadedQuiz (mediumBank ''x'')))))
       \<le> totalPoints (mediumBank ''x'')"
proof -
  let ?r = "run [SubmitAnswer ''hello'', Advance] (loadedQuiz (mediumBank ''x''))"
  have h: "?r = Inr (fst (projr ?r), snd (projr ?r))"
    by (simp add: quiz_eval mediumBank_def)
  have "score (fst (projr ?r)) = 10"
    by (simp add: quiz_eval mediumBank_def)
  moreover have "totalPoints (mediumBank ''x'') = 11"
    by (simp add: totalPoints_def mediumBank_def pointsOr1_def)
  moreover have "map_sum id score (handleAnswer ''Balanced pros and cons'' (fst (projr ?r))) = Inr 11"
    by (simp add: quiz_eval mediumBank_def)
  moreover have "score (fst (projr ?r)) \<le> totalPoints (mediumBank ''x'')"
    using score_monotone_bounded [OF h] by simp
  ultimately show ?thesis using h by simp
qed

text \<open>
  Where the key is neither a property of the bank nor one inherited from \<open>Object.prototype\<close>,
  the selection is the medium bank, which has questions.
\<close>

lemma selectedQuestions_fallback:
  "difficulty \<notin> set [''easy'', ''medium'', ''hard''] \<Longrightarrow>
   objectPrototypeGet difficulty = JUndefined \<Longrightarrow>
   selectedQuestions topic difficulty = JArray (mediumBank topic) \<and> mediumBank topic \<noteq> []"
  by (simp add: selectedQuestions_def questionBank_def mediumBank_def)

text \<open>
  C3 fails for a difficulty that names an inherited property. For \<open>constructor\<close> the read
  \<open>questionBank[difficulty]\<close> yields the function \<open>Object\<close>, which is truthy, so the medium
  bank is not selected; the state setter applies the function to the previous array and the
  question list stays empty. There \<open>handleAnswer\<close> throws, and the percentage of a completion
  is \<open>0 / 0\<close>.
\<close>

theorem selectedQuestions_constructor:
  "selectedQuestions ''x'' ''constructor'' = JFunction ''constructor''
   \<and> generateQuestions ''x'' ''constructor'' initialQuiz = Some (initialQuiz\<lparr>isLoading := False\<rparr>)
   \<and> questions (initialQuiz\<lparr>isLoading := False\<rparr>) = []
   \<and> handleAnswer ''a'' (initialQuiz\<lparr>isLoading := False\<rparr>) = Inl TypeError
   \<and> map_option c_percentage (snd (nextQuestion (initialQuiz\<lparr>isLoading := False\<rparr>))) = Some NaN"
  by (simp add: selectedQuestions_def questionBank_def objectPrototypeGet_def generateQuestions_def
      initialQuiz_def handleAnswer_def nextQuestion_def percentageOf_def)

section \<open>Properties of the upload intake\<close>

text \<open>
  For a selected file whose declared type is none of the three valid types, the intake stores
  the validation message and clears the selection, schedules no upload callback, so that
  neither \<open>onFileUpload\<close> nor \<open>onTopicDetected\<close> is called, and leaves the loading flag as it
  was.
\<close>

lemma invalid_type_rejected:
  assumes "f_type file \<notin> set validTypes"
  shows "intake createObjectURL (file # others) st =
           (st\<lparr>u_error := Some ''Please upload a PDF, DOCX, or TXT file.'', u_selectedFile := None\<rparr>, [])
         \<and> snd (handleFileChange (file # others) st) = None
         \<and> u_isLoading (fst (intake createObjectURL (file # others) st)) = u_isLoading st"
  using assms by (simp add: intake_def handleFileChange_def)

text \<open>The stored message has no part in what is rendered.\<close>

lemma render_ignores_error:
  "render uploadedFiles chat (st\<lparr>u_error := e\<rparr>) = render uploadedFiles chat st"
  by (simp add: render_def)

text \<open>
  C9 fails in its first part. A file \<open>photo.png\<close> of type \<open>image/png\<close> is rejected: no
  callback is invoked and the message is stored in the \<open>error\<close> state. But the component
  renders the same view as before the selection, since nothing it renders reads \<open>error\<close>:
  the validation error is not visible to the user.
\<close>

theorem invalid_type_error_not_rendered:
  "intake sampleObjectURL [\<lparr>f_name = ''photo.png'', f_type = ''image/png''\<rparr>] initialUploader
     = (initialUploader\<lparr>u_error := Some ''Please upload a PDF, DOCX, or TXT file.''\<rparr>, [])
   \<and> render [] initialChat
        (fst (intake sampleObjectURL [\<lparr>f_name = ''photo.png'', f_type = ''image/png''\<rparr>]
               initialUploader))
     = render [] initialChat initialUploader
   \<and> map_sum id v_uploadBox (render [] initialChat initialUploader) = Inr DropFiles
   \<and> map_sum id v_chat (render [] initialChat initialUploader) = Inr None"
  by (simp add: intake_def handleFileChange_def validTypes_def initialUploader_def
      initialChat_def render_def currentFiles_def demoFiles_def fileCard_def)

lemma js_split_hd: "js_split sep s \<noteq> [] \<and> js_split sep s ! 0 = takeWhile (\<lambda>c. c \<noteq> sep) s"
  by (induction s) (auto split: list.splits)

lemma strip_one_dot:
  assumes "length (filter (\<lambda>c. c = CHR ''.'') name) \<le> 1"
  shows "takeWhile (\<lambda>c. c \<noteq> CHR ''.'') name = stripExtension name"
proof (cases "CHR ''.'' \<in> set name")
  case False
  then show ?thesis by (auto simp: stripExtension_def)
next
  case True
  then obtain a b where ab: "name = a @ CHR ''.'' # b" and na: "CHR ''.'' \<notin> set a"
    by (meson split_list_first)
  from assms ab have "filter (\<lambda>c. c = CHR ''.'') b = []" by simp
  then have nb: "CHR ''.'' \<notin> set b" by (auto simp: filter_empty_conv)
  have "takeWhile (\<lambda>c. c \<noteq> CHR ''.'') name = a"
    using ab na by (auto simp: takeWhile_append2 takeWhile_tail)
  moreover have "dropWhile (\<lambda>c. c \<noteq> CHR ''.'') (rev name) = CHR ''.'' # rev a"
    using ab nb by (auto simp: dropWhile_append3)
  ultimately show ?thesis using True by (simp add: stripExtension_def)
qed

text \<open>
  C6, as stated, fails for a filename with more than one dot: \<open>lecture.notes.pdf\<close> is accepted
  and its topic is \<open>lecture\<close>, while the name with its extension stripped is \<open>lecture.notes\<close>.
\<close>

theorem upload_topic_two_dots_counterexample:
  "f_type \<lparr>f_name = ''lecture.notes.pdf'', f_type = ''application/pdf''\<rparr> \<in> set validTypes
   \<and> snd (intake sampleObjectURL
          [\<lparr>f_name = ''lecture.notes.pdf'', f_type = ''application/pdf''\<rparr>]
          \<lparr>u_selectedFile = None, u_isLoading = False, u_previewUrl = None, u_error = None\<rparr>)
      = [OnFileUpload \<lparr>uf_name = ''lecture.notes.pdf'', uf_type = ''application/pdf'',
                        uf_url = ''blob:lecture.notes.pdf'', uf_topics = Some [''lecture'']\<rparr>,
         OnTopicDetected ''lecture'']
   \<and> stripExtension ''lecture.notes.pdf'' = ''lecture.notes''
   \<and> ''lecture'' \<noteq> stripExtension ''lecture.notes.pdf''"
  by (simp add: validTypes_def stripExtension_def intake_def handleFileChange_def
      uploadTimeout_def sampleObjectURL_def Let_def)

text \<open>
  C6, amended. For every accepted file the emitted record has exactly one topic, the part of
  the filename before its first dot (the whole name when it has no dot), and the same string
  goes to \<open>onTopicDetected\<close>; when the filename has at most one dot this is the filename
  with its extension stripped. For \<open>notes.pdf\<close> of type \<open>application/pdf\<close> the topic is
  \<open>notes\<close>.
\<close>

theorem upload_topic:
  assumes "f_type file \<in> set validTypes"
  shows "snd (intake createObjectURL (file # others) st) =
           [OnFileUpload \<lparr>uf_name = f_name file, uf_type = f_type file, uf_url = createObjectURL file,
                           uf_topics = Some [takeWhile (\<lambda>c. c \<noteq> CHR ''.'') (f_name file)]\<rparr>,
            OnTopicDetected (takeWhile (\<lambda>c. c \<noteq> CHR ''.'') (f_name file))]
         \<and> (length (filter (\<lambda>c. c = CHR ''.'') (f_name file)) \<le> 1 \<longrightarrow>
              takeWhile (\<lambda>c. c \<noteq> CHR ''.'') (f_name file) = stripExtension (f_name file))"
  using assms strip_one_dot
  by (simp add: intake_def handleFileChange_def uploadTimeout_def js_split_hd Let_def)

theorem upload_topic_witness:
  "f_type \<lparr>f_name = ''notes.pdf'', f_type = ''application/pdf''\<rparr> \<in> set validTypes
   \<and> snd (intake sampleObjectURL [\<lparr>f_name = ''notes.pdf'', f_type = ''application/pdf''\<rparr>]
        \<lparr>u_selectedFile = None, u_isLoading = False, u_previewUrl = None, u_error = None\<rparr>)
      = [OnFileUpload \<lparr>uf_name = ''notes.pdf'', uf_type = ''application/pdf'', uf_url = ''blob:notes.pdf'',
                           uf_topics = Some [''notes'']\<rparr>, OnTopicDetected ''notes'']
   \<and> stripExtension ''notes.pdf'' = ''notes''"
  using upload_topic [of "\<lparr>f_name = ''notes.pdf'', f_type = ''application/pdf''\<rparr>"
     sampleObjectURL "[]"
     "\<lparr>u_selectedFile = None, u_isLoading = False, u_previewUrl = None, u_error = None\<rparr>"]
  by (simp add: validTypes_def stripExtension_def sampleObjectURL_def)

section \<open>Properties of the question-paper generator\<close>

lemma sum_marks_const:
  "sum_list (map (pq_marks \<circ> f) [0 ..< n]) = int n * k" if "\<And>i. pq_marks (f i) = k"
  using that by (induction n) (simp_all add: algebra_simps)

text \<open>
  With counts that are not negative, and small enough for the arrays to exist, the paper is
  consistent: the total is the sum over the
  counts, each section's total is the sum of its questions' marks, and parts A, B and C hold
  as many questions as their counts say.
\<close>

lemma generatePaper_marks:
  assumes "0 \<le> qc_mcq c" and "0 \<le> qc_short c" and "0 \<le> qc_long c"
    and "qc_mcq c < 2 ^ 32" and "qc_short c < 2 ^ 32" and "qc_long c < 2 ^ 32"
  shows "p_totalMarks (generatePaper d ts c mins today) = qc_mcq c * 1 + qc_short c * 3 + qc_long c * 10"
    and "map s_totalMarks (p_sections (generatePaper d ts c mins today))
          = map sectionMarks (p_sections (generatePaper d ts c mins today))"
    and "map s_part (p_sections (generatePaper d ts c mins today)) = [''A'', ''B'', ''C'']"
    and "map (int \<circ> length \<circ> s_questions) (p_sections (generatePaper d ts c mins today))
          = [qc_mcq c, qc_short c, qc_long c]"
    and "p_totalMarks (generatePaper d ts c mins today)
          = sum_list (map s_totalMarks (p_sections (generatePaper d ts c mins today)))"
  using assms
  by (simp_all add: generatePaper_def calculateTotalMarks_def sectionMarks_def arrayFrom_def
        sum_marks_const)

lemma generatePaper_scenario:
  "p_totalMarks (generatePaper ''hard'' [] \<lparr>qc_mcq = 5, qc_short = 2, qc_long = 1\<rparr> 120 today) = 21
   \<and> map (length \<circ> s_questions)
       (p_sections (generatePaper ''hard'' [] \<lparr>qc_mcq = 5, qc_short = 2, qc_long = 1\<rparr> 120 today))
      = [5, 2, 1]"
  by (simp add: generatePaper_def calculateTotalMarks_def arrayFrom_def)

text \<open>
  C2 fails for a negative count, which the number input stores when it is typed. With an MCQ
  count of -3, part A has no question and its marks sum to 0, yet its total is -3, and the
  paper's total is 13 while the marks of its questions sum to 16.
\<close>

theorem generatePaper_negative_count:
  "map (length \<circ> s_questions)
     (p_sections (generatePaper ''hard'' [] \<lparr>qc_mcq = - 3, qc_short = 2, qc_long = 1\<rparr> 120 ''1/1/2025''))
     = [0, 2, 1]
   \<and> map s_totalMarks
     (p_sections (generatePaper ''hard'' [] \<lparr>qc_mcq = - 3, qc_short = 2, qc_long = 1\<rparr> 120 ''1/1/2025''))
     = [- 3, 6, 10]
   \<and> map sectionMarks
     (p_sections (generatePaper ''hard'' [] \<lparr>qc_mcq = - 3, qc_short = 2, qc_long = 1\<rparr> 120 ''1/1/2025''))
     = [0, 6, 10]
   \<and> p_totalMarks (generatePaper ''hard'' [] \<lparr>qc_mcq = - 3, qc_short = 2, qc_long = 1\<rparr> 120 ''1/1/2025'')
     = 13"
  by (simp add: generatePaper_def arrayFrom_def sectionMarks_def calculateTotalMarks_def upt_rec)

section \<open>Properties of the resources browser\<close>

lemma forEachTopic_concat:
  "forEachTopic ts i acc = acc @ concat (map topicCluster (enumerate i ts))"
  by (induction ts arbitrary: i acc) (simp_all add: topicCluster_def)

lemma setAdd_fold_set: "set (foldl setAdd acc xs) = set acc \<union> set xs"
  by (induction xs arbitrary: acc) (auto simp: setAdd_def)

lemma newSet_first_seen: "newSet xs = rev (remdups (rev xs))"
proof (induction xs rule: rev_induct)
  case Nil
  then show ?case by (simp add: newSet_def)
next
  case (snoc x xs)
  have "newSet (xs @ [x]) = setAdd (newSet xs) x" by (simp add: newSet_def)
  moreover have "set (newSet xs) = set xs" by (simp add: newSet_def setAdd_fold_set)
  ultimately show ?case using snoc by (simp add: setAdd_def)
qed

lemma newSet_distinct: "distinct (newSet xs)" and newSet_set: "set (newSet xs) = set xs"
  by (simp_all add: newSet_first_seen)

lemma cluster_count:
  "length (filter (ofTopicAndType t ''video'') (topicCluster (i, t'))) = (if t' = t then 2 else 0)"
  "length (filter (ofTopicAndType t ''article'') (topicCluster (i, t'))) = (if t' = t then 2 else 0)"
  "length (filter (ofTopicAndType t ''interactive'') (topicCluster (i, t'))) = (if t' = t then 1 else 0)"
  "length (filter (ofTopicAndType t ''book'') (topicCluster (i, t'))) = (if t' = t then 1 else 0)"
  by (simp_all add: topicCluster_def ofTopicAndType_def videoResources_def articleResources_def
      interactiveResources_def bookResources_def)

lemma cluster_topic: "map r_topic (topicCluster (i, t)) = replicate 6 t"
  by (simp add: topicCluster_def videoResources_def articleResources_def
      interactiveResources_def bookResources_def numeral_eq_Suc)

lemma concat_count:
  assumes "\<And>i t'. length (filter P (topicCluster (i, t'))) = (if t' = t then k else 0)"
  shows "length (filter P (concat (map topicCluster ps))) = k * count_list (map snd ps) t"
proof (induction ps)
  case Nil
  then show ?case by simp
next
  case (Cons p ps)
  obtain i t' where p: "p = (i, t')" by (cases p)
  show ?case using Cons assms [of i t'] by (simp add: p)
qed

lemma distinct_count_one: "distinct xs \<Longrightarrow> x \<in> set xs \<Longrightarrow> count_list xs x = 1"
  by (induction xs) (auto simp: count_list_0_iff)

lemma catalog_count:
  assumes "\<And>i t'. length (filter P (topicCluster (i, t'))) = (if t' = t then k else 0)"
    and "uploadedFiles \<noteq> []" and "t \<in> set (allTopics uploadedFiles)"
  shows "length (filter P (generateResources uploadedFiles)) = k"
proof -
  have "count_list (newSet (allTopics uploadedFiles)) t = 1"
    using assms(3) by (simp add: distinct_count_one newSet_distinct newSet_set)
  then show ?thesis
    using assms(2) concat_count [OF assms(1)]
    by (simp add: generateResources_def forEachTopic_concat)
qed

text \<open>
  C7. For a list of uploaded files that is not empty, the unique topics are the topics of the
  files with duplicates removed in first-seen order; the catalog is the concatenation, in that
  order, of one cluster per unique topic, each cluster being the six templates instantiated
  with the topic and its index, so that every resource of a cluster carries the topic; and for
  each topic the catalog holds exactly two videos, two articles, one interactive resource and
  one book of that topic. For the empty list the catalog is the one static default resource,
  whose topic is Study Skills.
\<close>

theorem generateResources_catalog:
  "(uploadedFiles \<noteq> [] \<longrightarrow>
      newSet (allTopics uploadedFiles) = rev (remdups (rev (allTopics uploadedFiles)))
    \<and> generateResources uploadedFiles
        = concat (map topicCluster (enumerate 0 (newSet (allTopics uploadedFiles))))
    \<and> map r_topic (generateResources uploadedFiles)
        = concat (map (replicate 6) (newSet (allTopics uploadedFiles)))
    \<and> (\<forall>topic \<in> set (allTopics uploadedFiles).
          length (filter (ofTopicAndType topic ''video'') (generateResources uploadedFiles)) = 2
        \<and> length (filter (ofTopicAndType topic ''article'') (generateResources uploadedFiles)) = 2
        \<and> length (filter (ofTopicAndType topic ''interactive'') (generateResources uploadedFiles)) = 1
        \<and> length (filter (ofTopicAndType topic ''book'') (generateResources uploadedFiles)) = 1))
   \<and> generateResources [] = defaultResources
   \<and> map r_topic defaultResources = [''Study Skills'']"
proof (intro conjI impI ballI)
  show "newSet (allTopics uploadedFiles) = rev (remdups (rev (allTopics uploadedFiles)))"
    by (rule newSet_first_seen)
next
  assume "uploadedFiles \<noteq> []"
  then show eq: "generateResources uploadedFiles
        = concat (map topicCluster (enumerate 0 (newSet (allTopics uploadedFiles))))"
    by (simp add: generateResources_def forEachTopic_concat)
  have h: "map r_topic (concat (map topicCluster ps)) = concat (map (replicate 6) (map snd ps))" for ps
    by (induction ps) (auto simp: cluster_topic)
  show "map r_topic (generateResources uploadedFiles)
        = concat (map (replicate 6) (newSet (allTopics uploadedFiles)))"
    by (simp only: eq h map_snd_enumerate)
next
  fix topic assume "uploadedFiles \<noteq> []" "topic \<in> set (allTopics uploadedFiles)"
  then show "length (filter (ofTopicAndType topic ''video'') (generateResources uploadedFiles)) = 2"
    by (rule catalog_count [OF cluster_count(1)])
next
  fix topic assume "uploadedFiles \<noteq> []" "topic \<in> set (allTopics uploadedFiles)"
  then show "length (filter (ofTopicAndType topic ''article'') (generateResources uploadedFiles)) = 2"
    by (rule catalog_count [OF cluster_count(2)])
next
  fix topic assume "uploadedFiles \<noteq> []" "topic \<in> set (allTopics uploadedFiles)"
  then show "length (filter (ofTopicAndType topic ''interactive'') (generateResources uploadedFiles)) = 1"
    by (rule catalog_count [OF cluster_count(3)])
next
  fix topic assume "uploadedFiles \<noteq> []" "topic \<in> set (allTopics uploadedFiles)"
  then show "length (filter (ofTopicAndType topic ''book'') (generateResources uploadedFiles)) = 1"
    by (rule catalog_count [OF cluster_count(4)])
next
  show "generateResources [] = defaultResources" by (simp add: generateResources_def)
next
  show "map r_topic defaultResources = [''Study Skills'']" by (simp add: defaultResources_def)
qed

theorem generateResources_catalog_witness:
  "[\<lparr>uf_name = ''a.pdf'', uf_type = ''application/pdf'', uf_url = ''#'', uf_topics = Some [''Algebra'']\<rparr>,
    \<lparr>uf_name = ''b.txt'', uf_type = ''text/plain'', uf_url = ''#'', uf_topics = Some [''Logic'', ''Algebra'']\<rparr>] \<noteq> []
   \<and> newSet (allTopics
       [\<lparr>uf_name = ''a.pdf'', uf_type = ''application/pdf'', uf_url = ''#'', uf_topics = Some [''Algebra'']\<rparr>,
        \<lparr>uf_name = ''b.txt'', uf_type = ''text/plain'', uf_url = ''#'', uf_topics = Some [''Logic'', ''Algebra'']\<rparr>])
       = [''Algebra'', ''Logic'']
   \<and> length (filter (ofTopicAndType ''Logic'' ''video'') (generateResources
       [\<lparr>uf_name = ''a.pdf'', uf_type = ''application/pdf'', uf_url = ''#'', uf_topics = Some [''Algebra'']\<rparr>,
        \<lparr>uf_name = ''b.txt'', uf_type = ''text/plain'', uf_url = ''#'', uf_topics = Some [''Logic'', ''Algebra'']\<rparr>])) = 2
   \<and> map r_topic (generateResources
       [\<lparr>uf_name = ''a.pdf'', uf_type = ''application/pdf'', uf_url = ''#'', uf_topics = Some [''Algebra'']\<rparr>,
        \<lparr>uf_name = ''b.txt'', uf_type = ''text/plain'', uf_url = ''#'', uf_topics = Some [''Logic'', ''Algebra'']\<rparr>])
       = replicate 6 ''Algebra'' @ replicate 6 ''Logic''"
proof -
  let ?fs = "[\<lparr>uf_name = ''a.pdf'', uf_type = ''application/pdf'', uf_url = ''#'', uf_topics = Some [''Algebra'']\<rparr>,
        \<lparr>uf_name = ''b.txt'', uf_type = ''text/plain'', uf_url = ''#'', uf_topics = Some [''Logic'', ''Algebra'']\<rparr>]"
  have ne: "?fs \<noteq> []" by simp
  have ts: "allTopics ?fs = [''Algebra'', ''Logic'', ''Algebra'']" by (simp add: allTopics_def)
  have ns: "newSet (allTopics ?fs) = [''Algebra'', ''Logic'']"
    by (simp add: ts newSet_def setAdd_def)
  have "''Logic'' \<in> set (allTopics ?fs)" by (simp add: ts)
  with generateResources_catalog [of ?fs] ne
  have "length (filter (ofTopicAndType ''Logic'' ''video'') (generateResources ?fs)) = 2"
    by blast
  moreover from generateResources_catalog [of ?fs] ne
  have "map r_topic (generateResources ?fs) = concat (map (replicate 6) (newSet (allTopics ?fs)))"
    by blast
  ultimately show ?thesis using ne ns by simp
qed

lemma js_includes_sublist: "js_includes s sub \<longleftrightarrow> sublist sub s"
  by (induction s) (simp_all add: sublist_Cons_right)

lemma matchesQuery_textMatch: "hasTags r \<Longrightarrow> matchesQuery q r = Inr (textMatch q r)"
  by (auto simp: matchesQuery_def textMatch_def hasTags_def js_includes_sublist list_ex_iff
      split: option.splits)

lemma filterE_filter: "(\<And>x. x \<in> set xs \<Longrightarrow> p x = Inr (P x)) \<Longrightarrow> filterE p xs = Inr (filter P xs)"
  by (induction xs) simp_all

text \<open>
  The default resource has no \<open>tags\<close>: a query that matches none of its title, description
  and topic makes the filter throw.
\<close>

lemma filterResources_default_TypeError:
  "filterResources defaultResources ''all'' ''zzz'' = Inl TypeError"
  by code_simp

text \<open>
  C8, as stated, fails for a query of white space only: the guard \<open>searchQuery.trim()\<close>
  bypasses the text filter, so a query of two spaces, which no resource of the catalog of topic
  \<open>x\<close> matches, yields the whole catalog of six resources.
\<close>

theorem blank_query_counterexample:
  "filterResources
     (generateResources [\<lparr>uf_name = ''x.pdf'', uf_type = ''application/pdf'', uf_url = ''#'', uf_topics = Some [''x'']\<rparr>])
     ''all'' ''  ''
   = Inr (generateResources [\<lparr>uf_name = ''x.pdf'', uf_type = ''application/pdf'', uf_url = ''#'', uf_topics = Some [''x'']\<rparr>])
   \<and> length (generateResources [\<lparr>uf_name = ''x.pdf'', uf_type = ''application/pdf'', uf_url = ''#'', uf_topics = Some [''x'']\<rparr>]) = 6
   \<and> filter (conjunctiveMatch ''all'' ''  '')
        (generateResources [\<lparr>uf_name = ''x.pdf'', uf_type = ''application/pdf'', uf_url = ''#'', uf_topics = Some [''x'']\<rparr>]) = []"
  by code_simp

text \<open>
  C8, amended. For a catalog whose resources all have tags, the result holds exactly the
  resources that pass the category filter (an exact match that \<open>all\<close> bypasses) and, unless
  the query is blank (empty or white space only), the case-insensitive substring match of the
  query against title, description, topic or any tag; a query that is not blank and matches no
  resource under the current category yields the empty result; and the filtering effect
  changes \<open>filteredResources\<close> only, never the base catalog.
\<close>

theorem filterResources_conjunctive:
  assumes "\<forall>r \<in> set resources. hasTags r"
  shows "filterResources resources category query
           = Inr (filter (categoryOrBlankMatch category query) resources)
       \<and> (trim query \<noteq> [] \<longrightarrow>
            filterResources resources category query
              = Inr (filter (conjunctiveMatch category query) resources))
       \<and> (trim query \<noteq> [] \<and> filter (conjunctiveMatch category query) resources = [] \<longrightarrow>
            filterResources resources category query = Inr [])
       \<and> (rs_resources st = resources \<and> rs_selectedCategory st = category \<longrightarrow>
            filterEffect query st
              = Inr (st\<lparr>rs_filteredResources := filter (categoryOrBlankMatch category query) resources\<rparr>))"
proof -
  let ?byCategory = "filter (passesCategory category) resources"
  have cat: "(if category \<noteq> ''all''
              then filter (\<lambda>resource. r_category resource = category) resources
              else resources) = ?byCategory"
    by (auto simp: passesCategory_def intro: filter_cong)
  have search: "filterE (matchesQuery query) ?byCategory = Inr (filter (textMatch query) ?byCategory)"
    by (rule filterE_filter) (use assms in \<open>auto simp: matchesQuery_textMatch\<close>)
  have blank: "trim query = [] \<Longrightarrow>
      filter (categoryOrBlankMatch category query) resources = ?byCategory"
    by (auto simp: categoryOrBlankMatch_def intro: filter_cong)
  have nonblank: "trim query \<noteq> [] \<Longrightarrow>
      filter (categoryOrBlankMatch category query) resources = filter (textMatch query) ?byCategory"
    by (auto simp: categoryOrBlankMatch_def intro: filter_cong)
  have conj: "filter (conjunctiveMatch category query) resources = filter (textMatch query) ?byCategory"
    by (auto simp: conjunctiveMatch_def intro: filter_cong)
  have main: "filterResources resources category query
           = Inr (filter (categoryOrBlankMatch category query) resources)"
    unfolding filterResources_def Let_def cat using search blank nonblank by simp
  have two: "trim query \<noteq> [] \<Longrightarrow> filterResources resources category query
              = Inr (filter (conjunctiveMatch category query) resources)"
    using main nonblank conj by simp
  show ?thesis using main two by (auto simp: filterEffect_def)
qed

theorem filterResources_conjunctive_witness:
  "list_all hasTags
     (generateResources [\<lparr>uf_name = ''x.pdf'', uf_type = ''application/pdf'', uf_url = ''#'', uf_topics = Some [''x'']\<rparr>])
   \<and> trim ''ADVANCED'' \<noteq> []
   \<and> map_sum id (map r_id) (filterResources
     (generateResources [\<lparr>uf_name = ''x.pdf'', uf_type = ''application/pdf'', uf_url = ''#'', uf_topics = Some [''x'']\<rparr>])
     ''video'' ''ADVANCED'') = Inr [''video-0-2'']
   \<and> map r_id (filter (conjunctiveMatch ''video'' ''ADVANCED'')
     (generateResources [\<lparr>uf_name = ''x.pdf'', uf_type = ''application/pdf'', uf_url = ''#'', uf_topics = Some [''x'']\<rparr>]))
      = [''video-0-2'']"
proof -
  let ?rs = "generateResources [\<lparr>uf_name = ''x.pdf'', uf_type = ''application/pdf'', uf_url = ''#'', uf_topics = Some [''x'']\<rparr>]"
  have tags: "\<forall>r \<in> set ?rs. hasTags r"
    by code_simp
  have nb: "trim ''ADVANCED'' \<noteq> []"
    by code_simp
  have ev: "map_sum id (map r_id) (filterResources ?rs ''video'' ''ADVANCED'') = Inr [''video-0-2'']"
    by code_simp
  from filterResources_conjunctive [OF tags, of "''video''" "''ADVANCED''"] nb
  have "filterResources ?rs ''video'' ''ADVANCED''
          = Inr (filter (conjunctiveMatch ''video'' ''ADVANCED'') ?rs)"
    by blast
  with ev have "map r_id (filter (conjunctiveMatch ''video'' ''ADVANCED'') ?rs) = [''video-0-2'']"
    by simp
  with tags nb ev show ?thesis by (simp add: list_all_iff)
qed

text \<open>
  C10. Toggling a resource id makes it a favorite iff it was not one; toggling the same id
  twice gives back the same set of favorites; and the favorite status of every other id is
  unchanged.
\<close>

theorem toggleFavorite_involution:
  "(resourceId \<in> set (toggleFavorite resourceId favorites) \<longleftrightarrow> resourceId \<notin> set favorites)
   \<and> set (toggleFavorite resourceId (toggleFavorite resourceId favorites)) = set favorites
   \<and> (\<forall>other. other \<noteq> resourceId \<longrightarrow>
         (other \<in> set (toggleFavorite resourceId favorites) \<longleftrightarrow> other \<in> set favorites))"
  by (auto simp: toggleFavorite_def)

theorem toggleFavorite_involution_witness:
  "toggleFavorite ''video-0-1'' [''book-0-1''] = [''book-0-1'', ''video-0-1'']
   \<and> toggleFavorite ''video-0-1'' (toggleFavorite ''video-0-1'' [''book-0-1'']) = [''book-0-1'']
   \<and> ''book-0-1'' \<noteq> ''video-0-1''
   \<and> ''book-0-1'' \<in> set (toggleFavorite ''video-0-1'' [''book-0-1''])"
  using toggleFavorite_involution [of "''video-0-1''" "[''book-0-1'']"]
  by (simp add: toggleFavorite_def)

end
